theory Spec2Isabelle
  imports Complex_Main "HOL-Library.Sublist"
begin

section \<open>Python values handled by the client\<close>

text \<open>
  The values that \<^verbatim>\<open>response.json()\<close> produces and that the parameter
  dictionaries hold: \<^verbatim>\<open>None\<close>, booleans, integers, floats, strings, lists and
  dictionaries with string keys. A dictionary decoded from a response is kept as the
  list of its items; its keys are looked up with \<open>map_of\<close>.
\<close>

datatype json =
    JNull
  | JBool bool
  | JInt int
  | JFloat real
  | JString string
  | JArray "json list"
  | JObject "(string \<times> json) list"

text \<open>
  The \<^verbatim>\<open>event\<close> argument of \<^verbatim>\<open>APIError\<close>: the callers pass either
  \<^verbatim>\<open>response.content\<close> (bytes) or a decoded value; the default \<^verbatim>\<open>None\<close> is
  \<open>Val JNull\<close>.
\<close>

datatype event = Bytes string | Val json

datatype exn =
    APIError string
  | ZBError string
  | KeyError string
  | TypeError
  | OSError string
  | RequestException string

text \<open>Python truthiness, as tested by \<^verbatim>\<open>if event:\<close>.\<close>

fun truthy :: "event \<Rightarrow> bool" where
  "truthy (Bytes b) = (b \<noteq> [])"
| "truthy (Val JNull) = False"
| "truthy (Val (JBool b)) = b"
| "truthy (Val (JInt i)) = (i \<noteq> 0)"
| "truthy (Val (JFloat x)) = (x \<noteq> 0)"
| "truthy (Val (JString s)) = (s \<noteq> [])"
| "truthy (Val (JArray xs)) = (xs \<noteq> [])"
| "truthy (Val (JObject kvs)) = (kvs \<noteq> [])"

text \<open>
  Whether \<^verbatim>\<open>json.dump(event, f)\<close> completes. On bytes it raises
  \<^verbatim>\<open>TypeError\<close> before anything is written; every decoded value serialises.
\<close>

fun serializable :: "event \<Rightarrow> bool" where
  "serializable (Bytes b) = False"
| "serializable (Val v) = True"

text \<open>\<^verbatim>\<open>k in d\<close> for a string \<open>k\<close>: key membership in a dictionary, element
  membership in a list, substring test in a string, \<^verbatim>\<open>TypeError\<close> otherwise.\<close>

fun py_contains :: "json \<Rightarrow> string \<Rightarrow> exn + bool" where
  "py_contains (JObject kvs) k = Inr (k \<in> set (map fst kvs))"
| "py_contains (JArray xs) k = Inr (JString k \<in> set xs)"
| "py_contains (JString s) k = Inr (sublist k s)"
| "py_contains JNull k = Inl TypeError"
| "py_contains (JBool b) k = Inl TypeError"
| "py_contains (JInt i) k = Inl TypeError"
| "py_contains (JFloat x) k = Inl TypeError"

text \<open>\<^verbatim>\<open>d[k]\<close> for a string \<open>k\<close>: \<^verbatim>\<open>KeyError\<close> when a dictionary lacks the key,
  \<^verbatim>\<open>TypeError\<close> when \<open>d\<close> is not a dictionary.\<close>

fun py_getitem :: "json \<Rightarrow> string \<Rightarrow> exn + json" where
  "py_getitem (JObject kvs) k =
     (case map_of kvs k of None \<Rightarrow> Inl (KeyError k) | Some v \<Rightarrow> Inr v)"
| "py_getitem JNull k = Inl TypeError"
| "py_getitem (JBool b) k = Inl TypeError"
| "py_getitem (JInt i) k = Inl TypeError"
| "py_getitem (JFloat x) k = Inl TypeError"
| "py_getitem (JString s) k = Inl TypeError"
| "py_getitem (JArray xs) k = Inl TypeError"

text \<open>Decimal rendering of an integer, as an f-string does.\<close>

definition digit_char :: "nat \<Rightarrow> char" where
  "digit_char d = ''0123456789'' ! d"

fun str_nat :: "nat \<Rightarrow> string" where
  "str_nat n =
     (if n < 10 then [digit_char n] else str_nat (n div 10) @ [digit_char (n mod 10)])"

declare str_nat.simps [simp del]

definition str_int :: "int \<Rightarrow> string" where
  "str_int i = (if i < 0 then CHR ''-'' # str_nat (nat (- i)) else str_nat (nat i))"

section \<open>Requests, responses and the world\<close>

datatype verb = GET | POST

record request =
  methodname :: verb
  url :: string
  params :: "string \<rightharpoonup> json"
  data :: "(string \<rightharpoonup> json) option"

text \<open>
  A \<^verbatim>\<open>requests.Response\<close> as the client observes it: the status code, the raw
  body, and the outcome of \<^verbatim>\<open>response.json()\<close> (\<open>None\<close> when it raises
  \<^verbatim>\<open>JSONDecodeError\<close>).
\<close>

record response =
  status_code :: int
  content :: string
  decoded :: "json option"

text \<open>The truth value of a response is \<^verbatim>\<open>response.ok\<close>: false exactly for the
  statuses 400 to 599.\<close>

definition ok :: "response \<Rightarrow> bool" where
  "ok r = (\<not> (400 \<le> status_code r \<and> status_code r < 600))"

text \<open>
  What a diagnostics file holds: nothing (opened with mode \<^verbatim>\<open>'w'\<close> and not
  written), the text that \<^verbatim>\<open>json.dump\<close> writes for an event, the \<^verbatim>\<open>str\<close>
  of an event, or some beginning of a text, left by a write or a close that failed.
\<close>

datatype file_text =
    Truncated
  | JsonDump event
  | StrOf event
  | Partial file_text

text \<open>
  The state the client acts on: the requests the session has transmitted so far, the
  remote end (which answers a request, given the earlier ones, with a response or with
  an exception of the transport), the contents of the files, and for each path whether
  opening it for writing, writing to it and closing it succeed (each of the three raises
  \<^verbatim>\<open>OSError\<close> when it does not).
\<close>

record world =
  sent :: "request list"
  remote :: "request list \<Rightarrow> request \<Rightarrow> exn + response"
  can_open :: "string \<Rightarrow> bool"
  can_write :: "string \<Rightarrow> bool"
  can_close :: "string \<Rightarrow> bool"
  files :: "string \<rightharpoonup> file_text"

definition API_URL :: string where
  "API_URL = ''https://test.wikipedia.org/w/api.php?''"

definition json_sink :: string where
  "json_sink = ''logs/APIError.json''"

definition txt_sink :: string where
  "txt_sink = ''logs/APIError.txt''"

section \<open>APIError\<close>

text \<open>
  The block \<^verbatim>\<open>with open("logs/APIError.json", 'w') as f: json.dump(event, f)\<close>.
  The result is the exception that leaves the block, if any. Opening truncates the file.
  On an event that does not serialise \<^verbatim>\<open>json.dump\<close> raises \<^verbatim>\<open>TypeError\<close>
  before it writes; the file is then closed on the way out, and a close that fails
  raises \<^verbatim>\<open>OSError\<close> in place of the \<^verbatim>\<open>TypeError\<close>.
\<close>

definition dump_to_json_sink :: "world \<Rightarrow> event \<Rightarrow> world \<times> exn option" where
  "dump_to_json_sink w ev =
     (if \<not> can_open w json_sink then (w, Some (OSError json_sink))
      else if \<not> serializable ev then
        (w\<lparr>files := (files w)(json_sink \<mapsto> Truncated)\<rparr>,
         Some (if can_close w json_sink then TypeError else OSError json_sink))
      else if can_write w json_sink \<and> can_close w json_sink then
        (w\<lparr>files := (files w)(json_sink \<mapsto> JsonDump ev)\<rparr>, None)
      else
        (w\<lparr>files := (files w)(json_sink \<mapsto> Partial (JsonDump ev))\<rparr>,
         Some (OSError json_sink)))"

text \<open>The block \<^verbatim>\<open>with open("logs/APIError.txt", 'w') as f: f.write(str(event))\<close>.\<close>

definition write_to_txt_sink :: "world \<Rightarrow> event \<Rightarrow> world \<times> exn option" where
  "write_to_txt_sink w ev =
     (if \<not> can_open w txt_sink then (w, Some (OSError txt_sink))
      else if can_write w txt_sink \<and> can_close w txt_sink then
        (w\<lparr>files := (files w)(txt_sink \<mapsto> StrOf ev)\<rparr>, None)
      else
        (w\<lparr>files := (files w)(txt_sink \<mapsto> Partial (StrOf ev))\<rparr>,
         Some (OSError txt_sink)))"

text \<open>
  \<^verbatim>\<open>APIError.__init__(msg, event)\<close>, the same text in \<^verbatim>\<open>api.py\<close> and
  \<^verbatim>\<open>utils.py\<close>. The result is the exception that leaves the constructor call:
  the new \<^verbatim>\<open>APIError\<close>, or the \<^verbatim>\<open>OSError\<close> of a file operation that failed
  (only \<^verbatim>\<open>TypeError\<close> is caught).
\<close>

definition APIError_init :: "world \<Rightarrow> string \<Rightarrow> event \<Rightarrow> world \<times> exn" where
  "APIError_init w msg ev =
     (if truthy ev then
        (case dump_to_json_sink w ev of
           (w1, None) \<Rightarrow> (w1, APIError msg)
         | (w1, Some TypeError) \<Rightarrow>
             (case write_to_txt_sink w1 ev of
                (w2, None) \<Rightarrow> (w2, APIError msg)
              | (w2, Some e) \<Rightarrow> (w2, e))
         | (w1, Some e) \<Rightarrow> (w1, e))
      else (w, APIError msg))"

text \<open>All file operations of the constructor succeed: on an event that serialises, and
  on one that does not.\<close>

definition json_sink_writable :: "world \<Rightarrow> bool" where
  "json_sink_writable w =
     (can_open w json_sink \<and> can_write w json_sink \<and> can_close w json_sink)"

definition txt_sink_writable :: "world \<Rightarrow> bool" where
  "txt_sink_writable w =
     (can_open w json_sink \<and> can_close w json_sink
      \<and> can_open w txt_sink \<and> can_write w txt_sink \<and> can_close w txt_sink)"

text \<open>\<^verbatim>\<open>raise APIError(msg, event)\<close>.\<close>

definition raise_APIError :: "world \<Rightarrow> string \<Rightarrow> event \<Rightarrow> world \<times> (exn + json)" where
  "raise_APIError w msg ev = (case APIError_init w msg ev of (w', e) \<Rightarrow> (w', Inl e))"

section \<open>Module api\<close>

text \<open>
  \<^verbatim>\<open>_request\<close>, \<^verbatim>\<open>get\<close>, \<^verbatim>\<open>post\<close> and \<^verbatim>\<open>get_token\<close> of
  \<^verbatim>\<open>api.py\<close> are \<open>api_request\<close>, \<open>api_get\<close>, \<open>api_post\<close> and
  \<open>api_get_token\<close>. Each takes the world and returns the world after the call with
  either the exception that leaves the call or the value returned.
\<close>

text \<open>The session method called with the URL and the keyword arguments: the request
  is transmitted and the remote end answers.\<close>

definition request_of ::
  "verb \<Rightarrow> (string \<rightharpoonup> json) \<Rightarrow> (string \<rightharpoonup> json) option \<Rightarrow> request" where
  "request_of m ps d = \<lparr>methodname = m, url = API_URL, params = ps, data = d\<rparr>"

definition transmit :: "world \<Rightarrow> request \<Rightarrow> world" where
  "transmit w req = w\<lparr>sent := sent w @ [req]\<rparr>"

definition session_call ::
  "world \<Rightarrow> verb \<Rightarrow> (string \<rightharpoonup> json) \<Rightarrow> (string \<rightharpoonup> json) option
     \<Rightarrow> world \<times> (exn + response)" where
  "session_call w m ps d =
     (let req = request_of m ps d in (transmit w req, remote w (sent w) req))"

definition status_msg :: "response \<Rightarrow> string" where
  "status_msg r = ''response.status_code='' @ str_int (status_code r)"

definition no_json_msg :: string where
  "no_json_msg = ''No JSON found.''"

definition error_field_msg :: string where
  "error_field_msg = [CHR 0x27] @ ''error'' @ [CHR 0x27] @ '' field in response.''"

definition api_request ::
  "world \<Rightarrow> verb \<Rightarrow> (string \<rightharpoonup> json) \<Rightarrow> (string \<rightharpoonup> json) option
     \<Rightarrow> world \<times> (exn + json)" where
  "api_request w m ps d =
     (case session_call w m ps d of
        (w1, Inl e) \<Rightarrow> (w1, Inl e)
      | (w1, Inr r) \<Rightarrow>
          if \<not> ok r then raise_APIError w1 (status_msg r) (Bytes (content r))
          else (case decoded r of
                  None \<Rightarrow> raise_APIError w1 no_json_msg (Bytes (content r))
                | Some dat \<Rightarrow>
                    (case py_contains dat ''error'' of
                       Inl e \<Rightarrow> (w1, Inl e)
                     | Inr True \<Rightarrow> raise_APIError w1 error_field_msg (Val dat)
                     | Inr False \<Rightarrow> (w1, Inr dat))))"

text \<open>\<^verbatim>\<open>{'format': 'json', **params}\<close>.\<close>

definition with_format :: "(string \<rightharpoonup> json) \<Rightarrow> (string \<rightharpoonup> json)" where
  "with_format ps = [''format'' \<mapsto> JString ''json''] ++ ps"

definition api_get :: "world \<Rightarrow> (string \<rightharpoonup> json) \<Rightarrow> world \<times> (exn + json)" where
  "api_get w ps = api_request w GET (with_format ps) None"

text \<open>The raw literal \<^verbatim>\<open>R"+\\"\<close>: a plus sign and two backslashes.\<close>

definition empty_token :: string where
  "empty_token = [CHR ''+'', CHR 0x5C, CHR 0x5C]"

text \<open>\<^verbatim>\<open>query['query']['tokens'][tokentype + 'token']\<close>.\<close>

definition token_field :: "json \<Rightarrow> string \<Rightarrow> exn + json" where
  "token_field query tokentype =
     (case py_getitem query ''query'' of
        Inl e \<Rightarrow> Inl e
      | Inr q \<Rightarrow>
          (case py_getitem q ''tokens'' of
             Inl e \<Rightarrow> Inl e
           | Inr t \<Rightarrow> py_getitem t (tokentype @ ''token'')))"

definition token_query :: "string \<Rightarrow> (string \<rightharpoonup> json)" where
  "token_query tokentype =
     [''action'' \<mapsto> JString ''query'', ''meta'' \<mapsto> JString ''tokens'',
      ''type'' \<mapsto> JString tokentype]"

definition no_token_msg :: string where
  "no_token_msg = ''No token obtained.''"

definition empty_token_msg :: string where
  "empty_token_msg = ''Empty token.''"

definition api_get_token :: "world \<Rightarrow> string \<Rightarrow> world \<times> (exn + json)" where
  "api_get_token w tokentype =
     (case api_get w (token_query tokentype) of
        (w1, Inl e) \<Rightarrow> (w1, Inl e)
      | (w1, Inr query) \<Rightarrow>
          (case token_field query tokentype of
             Inl (KeyError k) \<Rightarrow> raise_APIError w1 no_token_msg (Val query)
           | Inl e \<Rightarrow> (w1, Inl e)
           | Inr token \<Rightarrow>
               if token = JString empty_token then (w1, Inl (ZBError empty_token_msg))
               else (w1, Inr token)))"

definition api_post ::
  "world \<Rightarrow> (string \<rightharpoonup> json) \<Rightarrow> string \<Rightarrow> world \<times> (exn + json)" where
  "api_post w ps tokentype =
     (case api_get_token w tokentype of
        (w1, Inl e) \<Rightarrow> (w1, Inl e)
      | (w1, Inr token) \<Rightarrow>
          api_request w1 POST (with_format ps) (Some [''token'' \<mapsto> token]))"

section \<open>Module utils\<close>

text \<open>
  The dataclass \<^verbatim>\<open>Authorization\<close> with its \<^verbatim>\<open>__repr__\<close> and \<^verbatim>\<open>__str__\<close>,
  and the methods \<^verbatim>\<open>_api\<close>, \<^verbatim>\<open>get\<close>, \<^verbatim>\<open>get_token\<close> and \<^verbatim>\<open>post\<close>
  of class \<^verbatim>\<open>Bot\<close>.
\<close>

record Authorization =
  client_key :: string
  client_secret :: string
  access_key :: string
  access_secret :: string

definition Authorization_repr :: "Authorization \<Rightarrow> string" where
  "Authorization_repr a =
     ''Authorization('' @ client_key a @ '', '' @ client_secret a @ '', ''
       @ access_key a @ '', '' @ access_secret a @ '')''"

definition Authorization_str :: "Authorization \<Rightarrow> string" where
  "Authorization_str a = ''<Authorization object with access key '' @ access_key a @ ''>''"

text \<open>\<^verbatim>\<open>Bot._api\<close>: as \<^verbatim>\<open>_request\<close> of module api, except for the event passed
  when the decoded response has an \<^verbatim>\<open>error\<close> field.\<close>

definition Bot_api ::
  "world \<Rightarrow> verb \<Rightarrow> (string \<rightharpoonup> json) \<Rightarrow> (string \<rightharpoonup> json) option
     \<Rightarrow> world \<times> (exn + json)" where
  "Bot_api w m ps d =
     (case session_call w m ps d of
        (w1, Inl e) \<Rightarrow> (w1, Inl e)
      | (w1, Inr r) \<Rightarrow>
          if \<not> ok r then raise_APIError w1 (status_msg r) (Bytes (content r))
          else (case decoded r of
                  None \<Rightarrow> raise_APIError w1 no_json_msg (Bytes (content r))
                | Some dat \<Rightarrow>
                    (case py_contains dat ''error'' of
                       Inl e \<Rightarrow> (w1, Inl e)
                     | Inr True \<Rightarrow> raise_APIError w1 error_field_msg (Bytes (content r))
                     | Inr False \<Rightarrow> (w1, Inr dat))))"

definition Bot_get :: "world \<Rightarrow> (string \<rightharpoonup> json) \<Rightarrow> world \<times> (exn + json)" where
  "Bot_get w ps = Bot_api w GET (with_format ps) None"

definition Bot_get_token :: "world \<Rightarrow> string \<Rightarrow> world \<times> (exn + json)" where
  "Bot_get_token w tokentype =
     (case Bot_get w (token_query tokentype) of
        (w1, Inl e) \<Rightarrow> (w1, Inl e)
      | (w1, Inr query) \<Rightarrow>
          (case token_field query tokentype of
             Inl (KeyError k) \<Rightarrow> raise_APIError w1 no_token_msg (Val query)
           | Inl e \<Rightarrow> (w1, Inl e)
           | Inr token \<Rightarrow>
               if token = JString empty_token then (w1, Inl (ZBError empty_token_msg))
               else (w1, Inr token)))"

definition Bot_post ::
  "world \<Rightarrow> (string \<rightharpoonup> json) \<Rightarrow> string \<Rightarrow> world \<times> (exn + json)" where
  "Bot_post w ps tokentype =
     (case Bot_get_token w tokentype of
        (w1, Inl e) \<Rightarrow> (w1, Inl e)
      | (w1, Inr token) \<Rightarrow>
          Bot_api w1 POST (with_format ps) (Some [''token'' \<mapsto> token]))"

section \<open>The requests a call transmits\<close>

text \<open>The request that \<^verbatim>\<open>get_token\<close> transmits through \<^verbatim>\<open>get\<close>, and the request
  that \<^verbatim>\<open>post\<close> transmits once it holds a token.\<close>

definition token_request :: "string \<Rightarrow> request" where
  "token_request tokentype = request_of GET (with_format (token_query tokentype)) None"

definition post_request :: "(string \<rightharpoonup> json) \<Rightarrow> json \<Rightarrow> request" where
  "post_request ps token = request_of POST (with_format ps) (Some [''token'' \<mapsto> token])"

section \<open>Example worlds\<close>

text \<open>A remote end that answers the \<open>n\<close>-th request of the session with the \<open>n\<close>-th
  response of a list, and with a transport failure once the list is used up.\<close>

definition scripted :: "response list \<Rightarrow> request list \<Rightarrow> request \<Rightarrow> exn + response" where
  "scripted rs hist req =
     (if length hist < length rs then Inr (rs ! length hist)
      else Inl (RequestException ''connection refused''))"

definition fresh_world :: "response list \<Rightarrow> bool \<Rightarrow> world" where
  "fresh_world rs writable =
     \<lparr>sent = [], remote = scripted rs, can_open = (\<lambda>p. writable),
      can_write = (\<lambda>p. True), can_close = (\<lambda>p. True), files = Map.empty\<rparr>"

definition not_found :: response where
  "not_found = \<lparr>status_code = 404, content = ''Not Found'', decoded = None\<rparr>"

definition empty_not_found :: response where
  "empty_not_found = \<lparr>status_code = 404, content = [], decoded = None\<rparr>"

definition badtoken_json :: json where
  "badtoken_json = JObject [(''error'', JObject [(''code'', JString ''badtoken'')])]"

definition badtoken :: response where
  \<open>badtoken = \<lparr>status_code = 200, content = ''{"error": {"code": "badtoken"}}'',
     decoded = Some badtoken_json\<rparr>\<close>

definition no_tokens_json :: json where
  "no_tokens_json = JObject [(''query'', JObject [(''tokens'', JObject [])])]"

definition no_tokens :: response where
  \<open>no_tokens = \<lparr>status_code = 200, content = ''{"query": {"tokens": {}}}'',
     decoded = Some no_tokens_json\<rparr>\<close>

definition token_json :: "string \<Rightarrow> json" where
  "token_json t = JObject [(''query'', JObject [(''tokens'', JObject [(''csrftoken'', JString t)])])]"

text \<open>The body of a token response escapes the backslashes and double quotes of the
  token, as a JSON string does.\<close>

definition json_escape :: "string \<Rightarrow> string" where
  "json_escape s =
     concat (map (\<lambda>c. if c = CHR 0x5C then [c, c]
                       else if c = CHR 0x22 then [CHR 0x5C, c] else [c]) s)"

definition token_response :: "string \<Rightarrow> response" where
  \<open>token_response t =
     \<lparr>status_code = 200,
      content = ''{"query": {"tokens": {"csrftoken": "'' @ json_escape t @ ''"}}}'',
      decoded = Some (token_json t)\<rparr>\<close>

definition edit_json :: json where
  "edit_json = JObject [(''edit'', JObject [(''result'', JString ''Success'')])]"

definition edit_done :: response where
  \<open>edit_done = \<lparr>status_code = 200, content = ''{"edit": {"result": "Success"}}'',
     decoded = Some edit_json\<rparr>\<close>

text \<open>A world in which every write fails (no space left on the device).\<close>

definition disk_full :: "world \<Rightarrow> world" where
  "disk_full w = w\<lparr>can_write := (\<lambda>p. False)\<rparr>"

definition demo_auth :: Authorization where
  "demo_auth = \<lparr>client_key = ''CK'', client_secret = ''CS'', access_key = ''AK'',
     access_secret = ''AS''\<rparr>"

text \<open>A session that edits twice, answered with a different token each time; parameter
  dictionaries without and with a \<^verbatim>\<open>format\<close> entry; the world after a first
  \<^verbatim>\<open>post\<close>; a second set of credentials with the access key of the first.\<close>

definition two_edits :: "response list" where
  "two_edits = [token_response ''a'', edit_done, token_response ''b'', edit_done]"

definition edit_params :: "string \<rightharpoonup> json" where
  "edit_params = [''action'' \<mapsto> JString ''edit'']"

definition xml_params :: "string \<rightharpoonup> json" where
  "xml_params = [''action'' \<mapsto> JString ''edit'', ''format'' \<mapsto> JString ''xml'']"

definition after_first_post :: world where
  "after_first_post = fst (api_post (fresh_world two_edits True) edit_params ''csrf'')"

definition other_auth :: Authorization where
  "other_auth = \<lparr>client_key = ''ck2'', client_secret = ''cs2'', access_key = ''AK'',
     access_secret = ''as2''\<rparr>"

section \<open>Basic facts\<close>

lemma dump_to_json_sink_frame:
  "sent (fst (dump_to_json_sink w ev)) = sent w"
  "remote (fst (dump_to_json_sink w ev)) = remote w"
  "can_open (fst (dump_to_json_sink w ev)) = can_open w"
  "can_write (fst (dump_to_json_sink w ev)) = can_write w"
  "can_close (fst (dump_to_json_sink w ev)) = can_close w"
  by (simp_all add: dump_to_json_sink_def)

lemma write_to_txt_sink_frame:
  "sent (fst (write_to_txt_sink w ev)) = sent w"
  "remote (fst (write_to_txt_sink w ev)) = remote w"
  by (simp_all add: write_to_txt_sink_def)

lemma APIError_init_frame:
  "sent (fst (APIError_init w msg ev)) = sent w"
  "remote (fst (APIError_init w msg ev)) = remote w"
proof -
  obtain w1 r where d: "dump_to_json_sink w ev = (w1, r)" by (cases "dump_to_json_sink w ev")
  obtain w2 q where t: "write_to_txt_sink w1 ev = (w2, q)" by (cases "write_to_txt_sink w1 ev")
  have a: "sent w1 = sent w" "remote w1 = remote w"
    using dump_to_json_sink_frame(1,2) [of w ev] d by simp_all
  have b: "sent w2 = sent w1" "remote w2 = remote w1"
    using write_to_txt_sink_frame [of w1 ev] t by simp_all
  show "sent (fst (APIError_init w msg ev)) = sent w"
    using a b d t by (simp add: APIError_init_def split: option.splits exn.splits)
  show "remote (fst (APIError_init w msg ev)) = remote w"
    using a b d t by (simp add: APIError_init_def split: option.splits exn.splits)
qed

lemma raise_APIError_frame:
  "sent (fst (raise_APIError w msg ev)) = sent w"
  "remote (fst (raise_APIError w msg ev)) = remote w"
  using APIError_init_frame [of w msg ev]
  by (cases "APIError_init w msg ev"; simp add: raise_APIError_def)+

lemma raise_APIError_falsy:
  "\<not> truthy ev \<Longrightarrow> raise_APIError w msg ev = (w, Inl (APIError msg))"
  by (simp add: raise_APIError_def APIError_init_def)

lemma raise_APIError_bytes:
  "b \<noteq> [] \<Longrightarrow> txt_sink_writable w \<Longrightarrow>
   raise_APIError w msg (Bytes b) =
     (w\<lparr>files := (files w)(json_sink \<mapsto> Truncated, txt_sink \<mapsto> StrOf (Bytes b))\<rparr>,
      Inl (APIError msg))"
  by (simp add: raise_APIError_def APIError_init_def dump_to_json_sink_def
      write_to_txt_sink_def txt_sink_writable_def)

lemma raise_APIError_bytes_snd:
  "snd (raise_APIError w msg (Bytes b)) =
     (if b = [] \<or> txt_sink_writable w then Inl (APIError msg)
      else Inl (OSError (if can_open w json_sink \<and> can_close w json_sink
                         then txt_sink else json_sink)))"
  by (simp add: raise_APIError_def APIError_init_def dump_to_json_sink_def
      write_to_txt_sink_def txt_sink_writable_def)

lemma raise_APIError_val:
  "truthy (Val v) \<Longrightarrow> json_sink_writable w \<Longrightarrow>
   raise_APIError w msg (Val v) =
     (w\<lparr>files := (files w)(json_sink \<mapsto> JsonDump (Val v))\<rparr>, Inl (APIError msg))"
  by (simp add: raise_APIError_def APIError_init_def dump_to_json_sink_def
      json_sink_writable_def)

lemma raise_APIError_val_snd:
  "truthy (Val v) \<Longrightarrow>
   snd (raise_APIError w msg (Val v)) =
     (if json_sink_writable w then Inl (APIError msg) else Inl (OSError json_sink))"
  by (simp add: raise_APIError_def APIError_init_def dump_to_json_sink_def
      json_sink_writable_def)

lemma fresh_world_writable:
  "json_sink_writable (fresh_world rs True)" "txt_sink_writable (fresh_world rs True)"
  "\<not> json_sink_writable (fresh_world rs False)" "\<not> txt_sink_writable (fresh_world rs False)"
  by (simp_all add: json_sink_writable_def txt_sink_writable_def fresh_world_def)

lemma session_call_eq:
  "session_call w m ps d = (transmit w (request_of m ps d), remote w (sent w) (request_of m ps d))"
  by (simp add: session_call_def Let_def)

lemma transmit_frame:
  "sent (transmit w req) = sent w @ [req]"
  "remote (transmit w req) = remote w"
  "can_open (transmit w req) = can_open w"
  "can_write (transmit w req) = can_write w"
  "can_close (transmit w req) = can_close w"
  "files (transmit w req) = files w"
  by (simp_all add: transmit_def)

lemma transmit_writable:
  "json_sink_writable (transmit w req) = json_sink_writable w"
  "txt_sink_writable (transmit w req) = txt_sink_writable w"
  by (simp_all add: json_sink_writable_def txt_sink_writable_def transmit_def)

lemma api_request_sent:
  "sent (fst (api_request w m ps d)) = sent w @ [request_of m ps d]"
  by (simp add: api_request_def session_call_eq raise_APIError_frame transmit_frame
      split: sum.splits option.splits bool.splits)

lemma Bot_api_sent:
  "sent (fst (Bot_api w m ps d)) = sent w @ [request_of m ps d]"
  by (simp add: Bot_api_def session_call_eq raise_APIError_frame transmit_frame
      split: sum.splits option.splits bool.splits)

lemma api_request_error_status:
  "remote w (sent w) (request_of m ps d) = Inr r \<Longrightarrow> \<not> ok r \<Longrightarrow>
   api_request w m ps d =
     raise_APIError (transmit w (request_of m ps d)) (status_msg r) (Bytes (content r))"
  by (simp add: api_request_def session_call_eq)

lemma Bot_api_error_status:
  "remote w (sent w) (request_of m ps d) = Inr r \<Longrightarrow> \<not> ok r \<Longrightarrow>
   Bot_api w m ps d =
     raise_APIError (transmit w (request_of m ps d)) (status_msg r) (Bytes (content r))"
  by (simp add: Bot_api_def session_call_eq)

lemma api_request_decoded:
  "remote w (sent w) (request_of m ps d) = Inr r \<Longrightarrow> ok r \<Longrightarrow> decoded r = Some dat \<Longrightarrow>
   api_request w m ps d =
     (case py_contains dat ''error'' of
        Inl e \<Rightarrow> (transmit w (request_of m ps d), Inl e)
      | Inr True \<Rightarrow> raise_APIError (transmit w (request_of m ps d)) error_field_msg (Val dat)
      | Inr False \<Rightarrow> (transmit w (request_of m ps d), Inr dat))"
  by (simp add: api_request_def session_call_eq)

lemma Bot_api_decoded:
  "remote w (sent w) (request_of m ps d) = Inr r \<Longrightarrow> ok r \<Longrightarrow> decoded r = Some dat \<Longrightarrow>
   Bot_api w m ps d =
     (case py_contains dat ''error'' of
        Inl e \<Rightarrow> (transmit w (request_of m ps d), Inl e)
      | Inr True \<Rightarrow>
          raise_APIError (transmit w (request_of m ps d)) error_field_msg (Bytes (content r))
      | Inr False \<Rightarrow> (transmit w (request_of m ps d), Inr dat))"
  by (simp add: Bot_api_def session_call_eq)

lemma api_request_Inr:
  "api_request w m ps d = (w', Inr dat) \<Longrightarrow>
   \<exists>r. remote w (sent w) (request_of m ps d) = Inr r \<and> ok r \<and> decoded r = Some dat \<and>
       py_contains dat ''error'' = Inr False \<and> w' = transmit w (request_of m ps d)"
  by (auto simp add: api_request_def session_call_eq raise_APIError_def
      split: sum.splits option.splits bool.splits prod.splits if_splits)

lemma Bot_api_Inr:
  "Bot_api w m ps d = (w', Inr dat) \<Longrightarrow>
   \<exists>r. remote w (sent w) (request_of m ps d) = Inr r \<and> ok r \<and> decoded r = Some dat \<and>
       py_contains dat ''error'' = Inr False \<and> w' = transmit w (request_of m ps d)"
  by (auto simp add: Bot_api_def session_call_eq raise_APIError_def
      split: sum.splits option.splits bool.splits prod.splits if_splits)

lemma falsy_events:
  "\<not> truthy (Val JNull)" "\<not> truthy (Val (JObject []))" "\<not> truthy (Bytes [])"
  by simp_all

lemma api_request_error_field:
  assumes "remote w (sent w) (request_of m ps d) = Inr r" and "ok r"
    and "decoded r = Some (JObject kvs)" and "''error'' \<in> set (map fst kvs)"
  shows "api_request w m ps d =
           raise_APIError (transmit w (request_of m ps d)) error_field_msg (Val (JObject kvs))"
  using assms by (simp add: api_request_decoded)

lemma Bot_api_error_field:
  assumes "remote w (sent w) (request_of m ps d) = Inr r" and "ok r"
    and "decoded r = Some (JObject kvs)" and "''error'' \<in> set (map fst kvs)"
  shows "Bot_api w m ps d =
           raise_APIError (transmit w (request_of m ps d)) error_field_msg (Bytes (content r))"
  using assms by (simp add: Bot_api_decoded)

lemma api_get_token_answered:
  assumes "remote w (sent w) (token_request tt) = Inr r" and "ok r"
    and "decoded r = Some query" and "py_contains query ''error'' = Inr False"
  shows "api_get_token w tt =
     (case token_field query tt of
        Inl (KeyError k) \<Rightarrow> raise_APIError (transmit w (token_request tt)) no_token_msg (Val query)
      | Inl e \<Rightarrow> (transmit w (token_request tt), Inl e)
      | Inr token \<Rightarrow>
          if token = JString empty_token
          then (transmit w (token_request tt), Inl (ZBError empty_token_msg))
          else (transmit w (token_request tt), Inr token))"
  using assms unfolding token_request_def
  by (simp add: api_get_token_def api_get_def api_request_decoded)

lemma Bot_get_token_answered:
  assumes "remote w (sent w) (token_request tt) = Inr r" and "ok r"
    and "decoded r = Some query" and "py_contains query ''error'' = Inr False"
  shows "Bot_get_token w tt =
     (case token_field query tt of
        Inl (KeyError k) \<Rightarrow> raise_APIError (transmit w (token_request tt)) no_token_msg (Val query)
      | Inl e \<Rightarrow> (transmit w (token_request tt), Inl e)
      | Inr token \<Rightarrow>
          if token = JString empty_token
          then (transmit w (token_request tt), Inl (ZBError empty_token_msg))
          else (transmit w (token_request tt), Inr token))"
  using assms unfolding token_request_def
  by (simp add: Bot_get_token_def Bot_get_def Bot_api_decoded)

lemma token_field_nested:
  assumes "map_of kvs ''query'' = Some (JObject q)" and "map_of q ''tokens'' = Some (JObject t)"
  shows "token_field (JObject kvs) tt =
     (case map_of t (tt @ ''token'') of None \<Rightarrow> Inl (KeyError (tt @ ''token'')) | Some v \<Rightarrow> Inr v)"
  using assms by (simp add: token_field_def)

lemma api_get_token_sent:
  "sent (fst (api_get_token w tt)) = sent w @ [token_request tt]"
proof -
  have "sent (fst (api_get w (token_query tt))) = sent w @ [token_request tt]"
    by (simp add: api_get_def api_request_sent token_request_def)
  then show ?thesis
    by (cases "api_get w (token_query tt)")
      (auto simp: api_get_token_def raise_APIError_frame split: sum.splits exn.splits)
qed

lemma Bot_get_token_sent:
  "sent (fst (Bot_get_token w tt)) = sent w @ [token_request tt]"
proof -
  have "sent (fst (Bot_get w (token_query tt))) = sent w @ [token_request tt]"
    by (simp add: Bot_get_def Bot_api_sent token_request_def)
  then show ?thesis
    by (cases "Bot_get w (token_query tt)")
      (auto simp: Bot_get_token_def raise_APIError_frame split: sum.splits exn.splits)
qed

lemma raise_APIError_not_Inr: "raise_APIError w msg ev \<noteq> (w', Inr x)"
  by (simp add: raise_APIError_def split: prod.splits)

lemma api_get_token_Inr:
  assumes "api_get_token w tt = (w1, Inr tok)"
  shows "\<exists>r query. remote w (sent w) (token_request tt) = Inr r \<and> ok r
      \<and> decoded r = Some query \<and> token_field query tt = Inr tok
      \<and> tok \<noteq> JString empty_token \<and> w1 = transmit w (token_request tt)"
proof -
  obtain w0 res where g: "api_get w (token_query tt) = (w0, res)" by (cases "api_get w (token_query tt)")
  with assms obtain query where q: "res = Inr query"
    by (cases res) (simp_all add: api_get_token_def)
  from g q have "api_request w GET (with_format (token_query tt)) None = (w0, Inr query)"
    by (simp add: api_get_def)
  from api_request_Inr [OF this] obtain r where
    r: "remote w (sent w) (token_request tt) = Inr r" "ok r" "decoded r = Some query"
      "w0 = transmit w (token_request tt)"
    by (auto simp: token_request_def)
  from assms g q have t: "token_field query tt = Inr tok \<and> tok \<noteq> JString empty_token \<and> w1 = w0"
    by (auto simp: api_get_token_def raise_APIError_not_Inr
        split: sum.splits exn.splits if_splits)
  with r show ?thesis by blast
qed

lemma Bot_get_token_Inr:
  assumes "Bot_get_token w tt = (w1, Inr tok)"
  shows "\<exists>r query. remote w (sent w) (token_request tt) = Inr r \<and> ok r
      \<and> decoded r = Some query \<and> token_field query tt = Inr tok
      \<and> tok \<noteq> JString empty_token \<and> w1 = transmit w (token_request tt)"
proof -
  obtain w0 res where g: "Bot_get w (token_query tt) = (w0, res)" by (cases "Bot_get w (token_query tt)")
  with assms obtain query where q: "res = Inr query"
    by (cases res) (simp_all add: Bot_get_token_def)
  from g q have "Bot_api w GET (with_format (token_query tt)) None = (w0, Inr query)"
    by (simp add: Bot_get_def)
  from Bot_api_Inr [OF this] obtain r where
    r: "remote w (sent w) (token_request tt) = Inr r" "ok r" "decoded r = Some query"
      "w0 = transmit w (token_request tt)"
    by (auto simp: token_request_def)
  from assms g q have t: "token_field query tt = Inr tok \<and> tok \<noteq> JString empty_token \<and> w1 = w0"
    by (auto simp: Bot_get_token_def raise_APIError_not_Inr
        split: sum.splits exn.splits if_splits)
  with r show ?thesis by blast
qed

lemma api_post_after_token:
  "api_get_token w tt = (w1, Inr tok) \<Longrightarrow>
   api_post w ps tt = api_request w1 POST (with_format ps) (Some [''token'' \<mapsto> tok])"
  by (simp add: api_post_def)

lemma Bot_post_after_token:
  "Bot_get_token w tt = (w1, Inr tok) \<Longrightarrow>
   Bot_post w ps tt = Bot_api w1 POST (with_format ps) (Some [''token'' \<mapsto> tok])"
  by (simp add: Bot_post_def)

lemma api_post_no_token:
  "api_get_token w tt = (w1, Inl e) \<Longrightarrow> api_post w ps tt = (w1, Inl e)"
  by (simp add: api_post_def)

lemma Bot_post_no_token:
  "Bot_get_token w tt = (w1, Inl e) \<Longrightarrow> Bot_post w ps tt = (w1, Inl e)"
  by (simp add: Bot_post_def)

lemma api_post_sent_cases:
  "(\<exists>v1 tok. api_get_token w tt = (v1, Inr tok)
       \<and> sent (fst (api_post w ps tt)) = sent w @ [token_request tt, post_request ps tok])
   \<or> ((\<exists>v1 e. api_get_token w tt = (v1, Inl e))
       \<and> sent (fst (api_post w ps tt)) = sent w @ [token_request tt])"
proof (cases "api_get_token w tt")
  case (Pair v1 res)
  have s: "sent v1 = sent w @ [token_request tt]"
    using api_get_token_sent [of w tt] Pair by simp
  show ?thesis
  proof (cases res)
    case (Inl e)
    with Pair s show ?thesis by (simp add: api_post_no_token)
  next
    case (Inr tok)
    with Pair s show ?thesis
      by (simp add: api_post_after_token api_request_sent post_request_def)
  qed
qed

lemma Bot_post_sent_cases:
  "(\<exists>v1 tok. Bot_get_token w tt = (v1, Inr tok)
       \<and> sent (fst (Bot_post w ps tt)) = sent w @ [token_request tt, post_request ps tok])
   \<or> ((\<exists>v1 e. Bot_get_token w tt = (v1, Inl e))
       \<and> sent (fst (Bot_post w ps tt)) = sent w @ [token_request tt])"
proof (cases "Bot_get_token w tt")
  case (Pair v1 res)
  have s: "sent v1 = sent w @ [token_request tt]"
    using Bot_get_token_sent [of w tt] Pair by simp
  show ?thesis
  proof (cases res)
    case (Inl e)
    with Pair s show ?thesis by (simp add: Bot_post_no_token)
  next
    case (Inr tok)
    with Pair s show ?thesis
      by (simp add: Bot_post_after_token Bot_api_sent post_request_def)
  qed
qed

lemma token_request_is_GET: "methodname (token_request tt) = GET"
  by (simp add: token_request_def request_of_def)

lemma post_request_fields:
  "methodname (post_request ps tok) = POST"
  "params (post_request ps tok) = with_format ps"
  "data (post_request ps tok) = Some [''token'' \<mapsto> tok]"
  by (simp_all add: post_request_def request_of_def)

lemma api_get_token_token_response:
  assumes "remote w (sent w) (token_request ''csrf'') = Inr (token_response t)"
    and "t \<noteq> empty_token"
  shows "api_get_token w ''csrf'' = (transmit w (token_request ''csrf''), Inr (JString t))"
proof -
  have h2: "ok (token_response t)" by (simp add: ok_def token_response_def)
  have h3: "decoded (token_response t) = Some (token_json t)" by (simp add: token_response_def)
  have h4: "py_contains (token_json t) ''error'' = Inr False" by (simp add: token_json_def)
  have f: "token_field (token_json t) ''csrf'' = Inr (JString t)"
    by (simp add: token_json_def token_field_def)
  show ?thesis
    using api_get_token_answered [OF assms(1) h2 h3 h4] f assms(2) by simp
qed

lemma Bot_get_token_token_response:
  assumes "remote w (sent w) (token_request ''csrf'') = Inr (token_response t)"
    and "t \<noteq> empty_token"
  shows "Bot_get_token w ''csrf'' = (transmit w (token_request ''csrf''), Inr (JString t))"
proof -
  have h2: "ok (token_response t)" by (simp add: ok_def token_response_def)
  have h3: "decoded (token_response t) = Some (token_json t)" by (simp add: token_response_def)
  have h4: "py_contains (token_json t) ''error'' = Inr False" by (simp add: token_json_def)
  have f: "token_field (token_json t) ''csrf'' = Inr (JString t)"
    by (simp add: token_json_def token_field_def)
  show ?thesis
    using Bot_get_token_answered [OF assms(1) h2 h3 h4] f assms(2) by simp
qed

lemma edit_done_returned:
  assumes "remote w (sent w) (request_of m ps d) = Inr edit_done"
  shows "api_request w m ps d = (transmit w (request_of m ps d), Inr edit_json)"
    and "Bot_api w m ps d = (transmit w (request_of m ps d), Inr edit_json)"
proof -
  have h1: "ok edit_done" by (simp add: ok_def edit_done_def)
  have h2: "decoded edit_done = Some edit_json" by (simp add: edit_done_def)
  have h3: "py_contains edit_json ''error'' = Inr False" by (simp add: edit_json_def)
  show "api_request w m ps d = (transmit w (request_of m ps d), Inr edit_json)"
    using api_request_decoded [OF assms h1 h2] h3 by simp
  show "Bot_api w m ps d = (transmit w (request_of m ps d), Inr edit_json)"
    using Bot_api_decoded [OF assms h1 h2] h3 by simp
qed

lemma after_first_post_eq:
  "after_first_post =
     transmit (transmit (fresh_world two_edits True) (token_request ''csrf''))
       (post_request edit_params (JString ''a''))"
proof -
  let ?w0 = "fresh_world two_edits True"
  let ?w1 = "transmit ?w0 (token_request ''csrf'')"
  have ne: "''a'' \<noteq> empty_token" by (simp add: empty_token_def)
  have "remote ?w0 (sent ?w0) (token_request ''csrf'') = Inr (token_response ''a'')"
    by (simp add: fresh_world_def scripted_def two_edits_def)
  from api_get_token_token_response [OF this ne]
  have t: "api_get_token ?w0 ''csrf'' = (?w1, Inr (JString ''a''))" .
  have "remote ?w1 (sent ?w1) (request_of POST (with_format edit_params)
      (Some [''token'' \<mapsto> JString ''a''])) = Inr edit_done"
    by (simp add: transmit_frame fresh_world_def scripted_def two_edits_def)
  from edit_done_returned(1) [OF this] t show ?thesis
    by (simp add: after_first_post_def api_post_after_token post_request_def)
qed

lemma after_first_post_fields:
  "sent after_first_post
     = [token_request ''csrf'', post_request edit_params (JString ''a'')]"
  "remote after_first_post = scripted two_edits"
  by (simp_all add: after_first_post_eq transmit_frame fresh_world_def)

lemma with_format_eq:
  "with_format ps
     = ps(''format'' \<mapsto> (case ps ''format'' of None \<Rightarrow> JString ''json'' | Some f \<Rightarrow> f))"
  by (auto simp: with_format_def map_add_def fun_eq_iff split: option.splits)

section \<open>The claims\<close>

subsection \<open>C1\<close>

text \<open>
  Claim C1. \<^verbatim>\<open>post(params, tokentype)\<close> transmits the token query and then, when
  \<^verbatim>\<open>get_token\<close> returned a token, one POST request whose body has the single field
  \<^verbatim>\<open>token\<close> with that token; when \<^verbatim>\<open>get_token\<close> raised, it transmits nothing
  more. Every POST request transmitted during the call is that request, and its token
  is the one read from the answer of the remote end to the token query of this same
  call, after the requests sent before it. The world \<open>w\<close> is arbitrary, so a token
  fetched by an earlier call is never used. Both modules.
\<close>

theorem post_body_is_fresh_token:
  "(req \<in> set (drop (length (sent w)) (sent (fst (api_post w ps tt))))
      \<and> methodname req = POST \<longrightarrow>
     (\<exists>r query tok.
        remote w (sent w) (token_request tt) = Inr r \<and> decoded r = Some query
        \<and> token_field query tt = Inr tok \<and> snd (api_get_token w tt) = Inr tok
        \<and> data req = Some [''token'' \<mapsto> tok] \<and> req = post_request ps tok
        \<and> sent (fst (api_post w ps tt)) = sent w @ [token_request tt, req]))
   \<and> (req \<in> set (drop (length (sent w)) (sent (fst (Bot_post w ps tt))))
      \<and> methodname req = POST \<longrightarrow>
     (\<exists>r query tok.
        remote w (sent w) (token_request tt) = Inr r \<and> decoded r = Some query
        \<and> token_field query tt = Inr tok \<and> snd (Bot_get_token w tt) = Inr tok
        \<and> data req = Some [''token'' \<mapsto> tok] \<and> req = post_request ps tok
        \<and> sent (fst (Bot_post w ps tt)) = sent w @ [token_request tt, req]))
   \<and> sent (fst (api_post w ps tt))
        = sent w @ token_request tt #
            (case snd (api_get_token w tt) of
               Inl e \<Rightarrow> [] | Inr tok \<Rightarrow> [post_request ps tok])
   \<and> sent (fst (Bot_post w ps tt))
        = sent w @ token_request tt #
            (case snd (Bot_get_token w tt) of
               Inl e \<Rightarrow> [] | Inr tok \<Rightarrow> [post_request ps tok])
   \<and> methodname (post_request ps t) = POST
   \<and> data (post_request ps t) = Some [''token'' \<mapsto> t]"
proof (intro conjI impI)
  assume h: "req \<in> set (drop (length (sent w)) (sent (fst (api_post w ps tt))))
      \<and> methodname req = POST"
  from api_post_sent_cases [of w tt ps]
  obtain v1 tok where t: "api_get_token w tt = (v1, Inr tok)"
    and s: "sent (fst (api_post w ps tt)) = sent w @ [token_request tt, post_request ps tok]"
    using h by (auto simp: token_request_is_GET)
  from h s have q: "req = post_request ps tok"
    by (auto simp: token_request_is_GET)
  from api_get_token_Inr [OF t] obtain r query where
    "remote w (sent w) (token_request tt) = Inr r" "decoded r = Some query"
    "token_field query tt = Inr tok"
    by blast
  with t s q show "\<exists>r query tok.
        remote w (sent w) (token_request tt) = Inr r \<and> decoded r = Some query
        \<and> token_field query tt = Inr tok \<and> snd (api_get_token w tt) = Inr tok
        \<and> data req = Some [''token'' \<mapsto> tok] \<and> req = post_request ps tok
        \<and> sent (fst (api_post w ps tt)) = sent w @ [token_request tt, req]"
    by (auto simp: post_request_fields)
next
  assume h: "req \<in> set (drop (length (sent w)) (sent (fst (Bot_post w ps tt))))
      \<and> methodname req = POST"
  from Bot_post_sent_cases [of w tt ps]
  obtain v1 tok where t: "Bot_get_token w tt = (v1, Inr tok)"
    and s: "sent (fst (Bot_post w ps tt)) = sent w @ [token_request tt, post_request ps tok]"
    using h by (auto simp: token_request_is_GET)
  from h s have q: "req = post_request ps tok"
    by (auto simp: token_request_is_GET)
  from Bot_get_token_Inr [OF t] obtain r query where
    "remote w (sent w) (token_request tt) = Inr r" "decoded r = Some query"
    "token_field query tt = Inr tok"
    by blast
  with t s q show "\<exists>r query tok.
        remote w (sent w) (token_request tt) = Inr r \<and> decoded r = Some query
        \<and> token_field query tt = Inr tok \<and> snd (Bot_get_token w tt) = Inr tok
        \<and> data req = Some [''token'' \<mapsto> tok] \<and> req = post_request ps tok
        \<and> sent (fst (Bot_post w ps tt)) = sent w @ [token_request tt, req]"
    by (auto simp: post_request_fields)
next
  show "sent (fst (api_post w ps tt))
        = sent w @ token_request tt #
            (case snd (api_get_token w tt) of
               Inl e \<Rightarrow> [] | Inr tok \<Rightarrow> [post_request ps tok])"
    using api_post_sent_cases [of w tt ps] by auto
next
  show "sent (fst (Bot_post w ps tt))
        = sent w @ token_request tt #
            (case snd (Bot_get_token w tt) of
               Inl e \<Rightarrow> [] | Inr tok \<Rightarrow> [post_request ps tok])"
    using Bot_post_sent_cases [of w tt ps] by auto
next
  show "methodname (post_request ps t) = POST" by (simp add: post_request_fields)
next
  show "data (post_request ps t) = Some [''token'' \<mapsto> t]" by (simp add: post_request_fields)
qed

text \<open>
  The second of two posts in one session: the remote end hands out token \<open>a\<close>, then
  token \<open>b\<close>; the first post sent \<open>a\<close>, the second sends \<open>b\<close>.
\<close>

theorem post_body_is_fresh_token_witness:
  "post_request edit_params (JString ''b'')
     \<in> set (drop (length (sent after_first_post))
              (sent (fst (api_post after_first_post edit_params ''csrf''))))
   \<and> post_request edit_params (JString ''b'')
     \<in> set (drop (length (sent after_first_post))
              (sent (fst (Bot_post after_first_post edit_params ''csrf''))))
   \<and> methodname (post_request edit_params (JString ''b'')) = POST
   \<and> sent after_first_post = [token_request ''csrf'', post_request edit_params (JString ''a'')]
   \<and> (\<exists>r query tok.
        remote after_first_post (sent after_first_post) (token_request ''csrf'') = Inr r
        \<and> decoded r = Some query \<and> token_field query ''csrf'' = Inr tok
        \<and> snd (api_get_token after_first_post ''csrf'') = Inr tok
        \<and> data (post_request edit_params (JString ''b'')) = Some [''token'' \<mapsto> tok]
        \<and> sent (fst (api_post after_first_post edit_params ''csrf''))
            = sent after_first_post
              @ [token_request ''csrf'', post_request edit_params (JString ''b'')])
   \<and> snd (api_get_token after_first_post ''csrf'') = Inr (JString ''b'')
   \<and> snd (Bot_get_token after_first_post ''csrf'') = Inr (JString ''b'')
   \<and> sent (fst (api_post after_first_post edit_params ''csrf''))
        = sent after_first_post
          @ [token_request ''csrf'', post_request edit_params (JString ''b'')]
   \<and> sent (fst (Bot_post after_first_post edit_params ''csrf''))
        = sent after_first_post
          @ [token_request ''csrf'', post_request edit_params (JString ''b'')]
   \<and> data (post_request edit_params (JString ''b'')) = Some [''token'' \<mapsto> JString ''b'']"
proof -
  let ?w = after_first_post
  let ?req = "post_request edit_params (JString ''b'')"
  have ne: "''b'' \<noteq> empty_token" by (simp add: empty_token_def)
  have a: "remote ?w (sent ?w) (token_request ''csrf'') = Inr (token_response ''b'')"
    by (simp add: after_first_post_fields scripted_def two_edits_def)
  have ta: "api_get_token ?w ''csrf'' = (transmit ?w (token_request ''csrf''), Inr (JString ''b''))"
    by (rule api_get_token_token_response [OF a ne])
  have tb: "Bot_get_token ?w ''csrf'' = (transmit ?w (token_request ''csrf''), Inr (JString ''b''))"
    by (rule Bot_get_token_token_response [OF a ne])
  have ga: "snd (api_get_token ?w ''csrf'') = Inr (JString ''b'')" by (simp add: ta)
  have gb: "snd (Bot_get_token ?w ''csrf'') = Inr (JString ''b'')" by (simp add: tb)
  note t = post_body_is_fresh_token [of ?req ?w edit_params "''csrf''" "JString ''b''"]
  from t ga have sa: "sent (fst (api_post ?w edit_params ''csrf''))
      = sent ?w @ [token_request ''csrf'', ?req]"
    by simp
  from t gb have sb: "sent (fst (Bot_post ?w edit_params ''csrf''))
      = sent ?w @ [token_request ''csrf'', ?req]"
    by simp
  from t have d: "data ?req = Some [''token'' \<mapsto> JString ''b'']" by blast
  have m1: "?req \<in> set (drop (length (sent ?w)) (sent (fst (api_post ?w edit_params ''csrf''))))"
    by (simp add: sa)
  have m2: "?req \<in> set (drop (length (sent ?w)) (sent (fst (Bot_post ?w edit_params ''csrf''))))"
    by (simp add: sb)
  from t have p: "methodname ?req = POST" by blast
  from t m1 p have
    "\<exists>r query tok.
        remote ?w (sent ?w) (token_request ''csrf'') = Inr r
        \<and> decoded r = Some query \<and> token_field query ''csrf'' = Inr tok
        \<and> snd (api_get_token ?w ''csrf'') = Inr tok
        \<and> data ?req = Some [''token'' \<mapsto> tok]
        \<and> sent (fst (api_post ?w edit_params ''csrf''))
            = sent ?w @ [token_request ''csrf'', ?req]"
    by blast
  with m1 m2 p after_first_post_fields(1) ga gb sa sb d show ?thesis by blast
qed

subsection \<open>C2\<close>

text \<open>
  Claim C2. \<^verbatim>\<open>get(P)\<close> transmits one request, whose parameters are \<open>P\<close> with the
  entry \<^verbatim>\<open>format\<close> added; \<^verbatim>\<open>post(P)\<close>, once it holds a token, transmits a POST
  with the same parameters. The entry is \<^verbatim>\<open>json\<close> when \<open>P\<close> has no
  \<^verbatim>\<open>format\<close> key and the value of \<open>P\<close> when it has one; every other entry is that
  of \<open>P\<close>. Both modules.
\<close>

theorem format_default_and_override:
  "sent (fst (api_get w ps)) = sent w @ [request_of GET (with_format ps) None]
   \<and> sent (fst (Bot_get w ps)) = sent w @ [request_of GET (with_format ps) None]
   \<and> (api_get_token v tt = (v1, Inr tok) \<longrightarrow>
        sent (fst (api_post v ps tt))
          = sent v1 @ [request_of POST (with_format ps) (Some [''token'' \<mapsto> tok])])
   \<and> (Bot_get_token v tt = (v2, Inr tok) \<longrightarrow>
        sent (fst (Bot_post v ps tt))
          = sent v2 @ [request_of POST (with_format ps) (Some [''token'' \<mapsto> tok])])
   \<and> with_format ps ''format''
        = (case ps ''format'' of None \<Rightarrow> Some (JString ''json'') | Some f \<Rightarrow> Some f)
   \<and> with_format ps
        = ps(''format'' \<mapsto> (case ps ''format'' of None \<Rightarrow> JString ''json'' | Some f \<Rightarrow> f))"
proof -
  have f: "with_format ps ''format''
      = (case ps ''format'' of None \<Rightarrow> Some (JString ''json'') | Some f \<Rightarrow> Some f)"
    by (simp add: with_format_def map_add_def split: option.splits)
  show ?thesis
    using f with_format_eq [of ps]
    by (auto simp: api_get_def Bot_get_def api_request_sent Bot_api_sent
        api_post_after_token Bot_post_after_token)
qed

theorem format_default_and_override_witness:
  "api_get_token (fresh_world two_edits True) ''csrf''
     = (transmit (fresh_world two_edits True) (token_request ''csrf''), Inr (JString ''a''))
   \<and> Bot_get_token (fresh_world two_edits True) ''csrf''
     = (transmit (fresh_world two_edits True) (token_request ''csrf''), Inr (JString ''a''))
   \<and> sent (fst (api_post (fresh_world two_edits True) xml_params ''csrf''))
     = [token_request ''csrf'',
        request_of POST (with_format xml_params) (Some [''token'' \<mapsto> JString ''a''])]
   \<and> sent (fst (Bot_post (fresh_world two_edits True) xml_params ''csrf''))
     = [token_request ''csrf'',
        request_of POST (with_format xml_params) (Some [''token'' \<mapsto> JString ''a''])]
   \<and> with_format xml_params ''format'' = Some (JString ''xml'')
   \<and> with_format edit_params ''format'' = Some (JString ''json'')"
proof -
  let ?v = "fresh_world two_edits True"
  let ?v1 = "transmit ?v (token_request ''csrf'')"
  have ne: "''a'' \<noteq> empty_token" by (simp add: empty_token_def)
  have a: "remote ?v (sent ?v) (token_request ''csrf'') = Inr (token_response ''a'')"
    by (simp add: fresh_world_def scripted_def two_edits_def)
  have ta: "api_get_token ?v ''csrf'' = (?v1, Inr (JString ''a''))"
    by (rule api_get_token_token_response [OF a ne])
  have tb: "Bot_get_token ?v ''csrf'' = (?v1, Inr (JString ''a''))"
    by (rule Bot_get_token_token_response [OF a ne])
  have s1: "sent ?v1 = [token_request ''csrf'']"
    by (simp add: transmit_frame fresh_world_def)
  note t = format_default_and_override [where v = ?v and tt = "''csrf''" and ?v1.0 = ?v1
      and ?v2.0 = ?v1 and tok = "JString ''a''"]
  from t [where ps = xml_params] ta s1
  have r1: "sent (fst (api_post ?v xml_params ''csrf''))
      = [token_request ''csrf'',
         request_of POST (with_format xml_params) (Some [''token'' \<mapsto> JString ''a''])]"
    by simp
  from t [where ps = xml_params] tb s1
  have r2: "sent (fst (Bot_post ?v xml_params ''csrf''))
      = [token_request ''csrf'',
         request_of POST (with_format xml_params) (Some [''token'' \<mapsto> JString ''a''])]"
    by simp
  from t [where ps = xml_params]
  have r3: "with_format xml_params ''format'' = Some (JString ''xml'')"
    by (simp add: xml_params_def)
  from t [where ps = edit_params]
  have r4: "with_format edit_params ''format'' = Some (JString ''json'')"
    by (simp add: edit_params_def)
  from ta tb r1 r2 r3 r4 show ?thesis by blast
qed

subsection \<open>C3\<close>

text \<open>
  Claim C3 at the response \<^verbatim>\<open>{"error": {"code": "badtoken"}}\<close> with status 200 and
  writable sinks. \<^verbatim>\<open>Bot._api\<close> of module utils passes the raw body as event: the JSON
  sink is left truncated and the text sink receives the \<^verbatim>\<open>str\<close> of the bytes.
  \<^verbatim>\<open>_request\<close> of module api passes the decoded object, which is dumped to the JSON
  sink, as the claim says.
\<close>

theorem Bot_api_error_field_dumps_raw_body:
  \<open>files (fst (Bot_api (fresh_world [badtoken] True) GET (with_format Map.empty) None))
       json_sink = Some Truncated
   \<and> files (fst (Bot_api (fresh_world [badtoken] True) GET (with_format Map.empty) None))
       txt_sink = Some (StrOf (Bytes ''{"error": {"code": "badtoken"}}''))
   \<and> files (fst (api_request (fresh_world [badtoken] True) GET (with_format Map.empty) None))
       json_sink = Some (JsonDump (Val badtoken_json))
   \<and> files (fst (api_request (fresh_world [badtoken] True) GET (with_format Map.empty) None))
       txt_sink = None\<close>
proof -
  let ?w = "fresh_world [badtoken] True"
  let ?q = "request_of GET (with_format Map.empty) None"
  have h1: "remote ?w (sent ?w) ?q = Inr badtoken"
    by (simp add: fresh_world_def scripted_def)
  have h2: "ok badtoken" by (simp add: ok_def badtoken_def)
  have h3: "decoded badtoken = Some (JObject [(''error'', JObject [(''code'', JString ''badtoken'')])])"
    by (simp add: badtoken_def badtoken_json_def)
  have h4: "''error'' \<in> set (map fst [(''error'', JObject [(''code'', JString ''badtoken'')])])"
    by simp
  have o: "txt_sink_writable (transmit ?w ?q)" "json_sink_writable (transmit ?w ?q)"
    by (simp_all add: transmit_writable fresh_world_writable)
  have f: "files (transmit ?w ?q) = Map.empty"
    by (simp add: transmit_frame fresh_world_def)
  have ne: "json_sink \<noteq> txt_sink" by (simp add: json_sink_def txt_sink_def)
  have b: "Bot_api ?w GET (with_format Map.empty) None =
      raise_APIError (transmit ?w ?q) error_field_msg (Bytes (content badtoken))"
    by (rule Bot_api_error_field [OF h1 h2 h3 h4])
  have a: "api_request ?w GET (with_format Map.empty) None =
      raise_APIError (transmit ?w ?q) error_field_msg (Val badtoken_json)"
    using api_request_error_field [OF h1 h2 h3 h4] by (simp add: badtoken_json_def)
  have c: \<open>content badtoken = ''{"error": {"code": "badtoken"}}''\<close>
    by (simp add: badtoken_def)
  have t: "truthy (Val badtoken_json)" by (simp add: badtoken_json_def)
  show ?thesis
    using ne
    by (simp add: a b c raise_APIError_bytes [OF _ o(1)] raise_APIError_val [OF t o(2)] f)
qed

subsection \<open>C4\<close>

text \<open>
  Claim C4, as stated, fails: when the JSON sink cannot be opened, the \<^verbatim>\<open>OSError\<close>
  of \<^verbatim>\<open>open\<close> leaves the constructor, and the dispatcher, instead of the
  \<^verbatim>\<open>APIError\<close>; so does the \<^verbatim>\<open>OSError\<close> of a write that fails after the
  sink was opened.
\<close>

theorem write_failure_replaces_APIError:
  "truthy (Bytes ''Not Found'') \<and>
   snd (APIError_init (fresh_world [not_found] False) ''response.status_code=404''
          (Bytes ''Not Found'')) = OSError ''logs/APIError.json'' \<and>
   snd (api_get (fresh_world [not_found] False) Map.empty) = Inl (OSError ''logs/APIError.json'') \<and>
   truthy (Val badtoken_json) \<and>
   can_open (disk_full (fresh_world [badtoken] True)) json_sink \<and>
   snd (APIError_init (disk_full (fresh_world [badtoken] True)) error_field_msg
          (Val badtoken_json)) = OSError ''logs/APIError.json''"
  by (simp add: APIError_init_def dump_to_json_sink_def fresh_world_def json_sink_def
      api_get_def api_request_def session_call_def transmit_def request_of_def scripted_def
      not_found_def ok_def raise_APIError_def disk_full_def badtoken_json_def)

text \<open>
  Claim C4, amended. With a truthy event the \<^verbatim>\<open>APIError\<close> reaches the caller exactly
  when every file operation of the constructor succeeds: opening, writing and closing
  the JSON sink for an event that serialises; opening and closing the JSON sink and
  opening, writing and closing the text sink for one that does not (the
  \<^verbatim>\<open>TypeError\<close> of \<^verbatim>\<open>json.dump\<close> is the one failure that is caught). Otherwise
  the \<^verbatim>\<open>OSError\<close> of the operation that failed propagates in its place.
\<close>

theorem APIError_surfaces_iff_file_operations_succeed:
  assumes "truthy ev"
  shows "snd (APIError_init w msg ev) =
           (if \<not> can_open w json_sink then OSError json_sink
            else if serializable ev then
              (if can_write w json_sink \<and> can_close w json_sink then APIError msg
               else OSError json_sink)
            else if \<not> can_close w json_sink then OSError json_sink
            else if can_open w txt_sink \<and> can_write w txt_sink \<and> can_close w txt_sink
              then APIError msg
            else OSError txt_sink)
       \<and> (snd (APIError_init w msg ev) = APIError msg)
           = (if serializable ev then json_sink_writable w else txt_sink_writable w)"
  using assms
  by (simp add: APIError_init_def dump_to_json_sink_def write_to_txt_sink_def
      json_sink_writable_def txt_sink_writable_def)

theorem APIError_surfaces_iff_file_operations_succeed_witness:
  "truthy (Val badtoken_json) \<and>
   snd (APIError_init (fresh_world [badtoken] True) error_field_msg (Val badtoken_json))
     = APIError error_field_msg"
  using APIError_surfaces_iff_file_operations_succeed
    [of "Val badtoken_json" "fresh_world [badtoken] True" error_field_msg]
  by (simp add: badtoken_json_def fresh_world_def)

subsection \<open>C5\<close>

text \<open>
  Claim C5. When the token query is answered without error and the field
  \<^verbatim>\<open><tokentype>token\<close> of \<^verbatim>\<open>query.tokens\<close> equals the literal \<^verbatim>\<open>R"+\\"\<close> of
  the source, \<^verbatim>\<open>get_token\<close> raises \<^verbatim>\<open>ZBError("Empty token.")\<close>, which is no
  \<^verbatim>\<open>APIError\<close>, and the files are those before the call. Both modules.
\<close>

theorem empty_token_raises_ZBError:
  assumes "remote w (sent w) (token_request tt) = Inr r" and "ok r"
    and "decoded r = Some (JObject kvs)" and "''error'' \<notin> set (map fst kvs)"
    and "map_of kvs ''query'' = Some (JObject q)"
    and "map_of q ''tokens'' = Some (JObject t)"
    and "map_of t (tt @ ''token'') = Some (JString empty_token)"
  shows "api_get_token w tt = (transmit w (token_request tt), Inl (ZBError ''Empty token.''))
       \<and> Bot_get_token w tt = (transmit w (token_request tt), Inl (ZBError ''Empty token.''))
       \<and> files (fst (api_get_token w tt)) = files w
       \<and> files (fst (Bot_get_token w tt)) = files w
       \<and> (\<forall>msg. ZBError ''Empty token.'' \<noteq> APIError msg)"
proof -
  have c: "py_contains (JObject kvs) ''error'' = Inr False"
    using assms(4) by simp
  have f: "token_field (JObject kvs) tt = Inr (JString empty_token)"
    using assms(5-7) by (simp add: token_field_nested)
  have a: "api_get_token w tt = (transmit w (token_request tt), Inl (ZBError empty_token_msg))"
    using api_get_token_answered [OF assms(1-3) c] f by simp
  have b: "Bot_get_token w tt = (transmit w (token_request tt), Inl (ZBError empty_token_msg))"
    using Bot_get_token_answered [OF assms(1-3) c] f by simp
  show ?thesis using a b by (simp add: empty_token_msg_def transmit_frame)
qed

theorem empty_token_raises_ZBError_witness:
  "remote (fresh_world [token_response empty_token] True)
       (sent (fresh_world [token_response empty_token] True)) (token_request ''csrf'')
     = Inr (token_response empty_token)
   \<and> ok (token_response empty_token)
   \<and> api_get_token (fresh_world [token_response empty_token] True) ''csrf''
       = (transmit (fresh_world [token_response empty_token] True) (token_request ''csrf''),
          Inl (ZBError ''Empty token.''))
   \<and> files (fst (api_get_token (fresh_world [token_response empty_token] True) ''csrf''))
       = files (fresh_world [token_response empty_token] True)"
proof -
  let ?r = "token_response empty_token"
  let ?w = "fresh_world [?r] True"
  have h1: "remote ?w (sent ?w) (token_request ''csrf'') = Inr ?r"
    by (simp add: fresh_world_def scripted_def)
  have h2: "ok ?r" by (simp add: ok_def token_response_def)
  have h3: "decoded ?r = Some (JObject [(''query'',
      JObject [(''tokens'', JObject [(''csrftoken'', JString empty_token)])])])"
    by (simp add: token_response_def token_json_def)
  have h4: "''error'' \<notin> set (map fst [(''query'',
      JObject [(''tokens'', JObject [(''csrftoken'', JString empty_token)])])])"
    by simp
  have h5: "map_of [(''query'', JObject [(''tokens'', JObject [(''csrftoken'', JString empty_token)])])]
      ''query'' = Some (JObject [(''tokens'', JObject [(''csrftoken'', JString empty_token)])])"
    by simp
  have h6: "map_of [(''tokens'', JObject [(''csrftoken'', JString empty_token)])] ''tokens''
      = Some (JObject [(''csrftoken'', JString empty_token)])" by simp
  have h7: "map_of [(''csrftoken'', JString empty_token)] (''csrf'' @ ''token'')
      = Some (JString empty_token)" by simp
  from empty_token_raises_ZBError [OF h1 h2 h3 h4 h5 h6 h7] h1 h2
  show ?thesis by blast
qed

subsection \<open>C6\<close>

text \<open>
  Claim C6, as stated, fails: on a 404 with a non-empty body and a JSON sink that
  cannot be opened, both dispatchers raise the \<^verbatim>\<open>OSError\<close> of \<^verbatim>\<open>open\<close>, not an
  \<^verbatim>\<open>APIError\<close>.
\<close>

theorem error_status_with_unopenable_sink_raises_OSError:
  "400 \<le> status_code not_found \<and> status_code not_found < 600
   \<and> remote (fresh_world [not_found] False) (sent (fresh_world [not_found] False))
        (request_of GET (with_format Map.empty) None) = Inr not_found
   \<and> snd (api_request (fresh_world [not_found] False) GET (with_format Map.empty) None)
        = Inl (OSError ''logs/APIError.json'')
   \<and> snd (Bot_api (fresh_world [not_found] False) GET (with_format Map.empty) None)
        = Inl (OSError ''logs/APIError.json'')"
proof -
  let ?w = "fresh_world [not_found] False"
  let ?q = "request_of GET (with_format Map.empty) None"
  have h1: "remote ?w (sent ?w) ?q = Inr not_found"
    by (simp add: fresh_world_def scripted_def)
  have h2: "\<not> ok not_found" by (simp add: ok_def not_found_def)
  have c: "content not_found \<noteq> []" by (simp add: not_found_def)
  have n: "\<not> txt_sink_writable (transmit ?w ?q)"
    by (simp add: transmit_writable fresh_world_writable)
  have n': "\<not> can_open (transmit ?w ?q) json_sink"
    by (simp add: transmit_frame fresh_world_def)
  have r: "snd (raise_APIError (transmit ?w ?q) (status_msg not_found) (Bytes (content not_found)))
      = Inl (OSError ''logs/APIError.json'')"
    using c n n' by (simp add: raise_APIError_bytes_snd json_sink_def)
  have a: "snd (api_request ?w GET (with_format Map.empty) None)
      = Inl (OSError ''logs/APIError.json'')"
    using r by (simp add: api_request_error_status [OF h1 h2])
  have b: "snd (Bot_api ?w GET (with_format Map.empty) None)
      = Inl (OSError ''logs/APIError.json'')"
    using r by (simp add: Bot_api_error_status [OF h1 h2])
  have st: "400 \<le> status_code not_found \<and> status_code not_found < 600"
    by (simp add: not_found_def)
  from st h1 a b show ?thesis by blast
qed

text \<open>
  Claim C6, amended. A response with a status from 400 to 599 (404 in particular) makes
  both dispatchers evaluate \<^verbatim>\<open>raise APIError(msg, response.content)\<close> with the message
  \<^verbatim>\<open>response.status_code=<n>\<close>. The outcome does not mention \<open>decoded r\<close>: the
  status is checked before the body is decoded. The \<^verbatim>\<open>APIError\<close> reaches the caller
  when the body is empty or every file operation of the diagnostic write succeeds, and
  the text sink then holds the \<^verbatim>\<open>str\<close> of a non-empty body; otherwise the
  \<^verbatim>\<open>OSError\<close> of the sink whose operation failed is raised.
\<close>

theorem error_status_raises_with_raw_body:
  assumes "remote w (sent w) (request_of m ps d) = Inr r"
    and "400 \<le> status_code r" and "status_code r < 600"
  shows "api_request w m ps d =
           raise_APIError (transmit w (request_of m ps d))
             (''response.status_code='' @ str_int (status_code r)) (Bytes (content r))
       \<and> Bot_api w m ps d =
           raise_APIError (transmit w (request_of m ps d))
             (''response.status_code='' @ str_int (status_code r)) (Bytes (content r))
       \<and> snd (api_request w m ps d) =
           (if content r = [] \<or> txt_sink_writable w
            then Inl (APIError (''response.status_code='' @ str_int (status_code r)))
            else Inl (OSError (if can_open w json_sink \<and> can_close w json_sink
                               then txt_sink else json_sink)))
       \<and> snd (Bot_api w m ps d) = snd (api_request w m ps d)
       \<and> (txt_sink_writable w \<and> content r \<noteq> [] \<longrightarrow>
            files (fst (api_request w m ps d)) txt_sink = Some (StrOf (Bytes (content r)))
          \<and> files (fst (Bot_api w m ps d)) txt_sink = Some (StrOf (Bytes (content r))))"
proof -
  let ?w1 = "transmit w (request_of m ps d)"
  from assms have nok: "\<not> ok r" by (simp add: ok_def)
  have a: "api_request w m ps d = raise_APIError ?w1 (status_msg r) (Bytes (content r))"
    using assms(1) nok by (rule api_request_error_status)
  have b: "Bot_api w m ps d = raise_APIError ?w1 (status_msg r) (Bytes (content r))"
    using assms(1) nok by (rule Bot_api_error_status)
  have c: "snd (raise_APIError ?w1 (status_msg r) (Bytes (content r))) =
      (if content r = [] \<or> txt_sink_writable w then Inl (APIError (status_msg r))
       else Inl (OSError (if can_open w json_sink \<and> can_close w json_sink
                          then txt_sink else json_sink)))"
    by (simp add: raise_APIError_bytes_snd transmit_writable transmit_frame)
  have e: "files (fst (raise_APIError ?w1 (status_msg r) (Bytes (content r)))) txt_sink
             = Some (StrOf (Bytes (content r)))"
    if "txt_sink_writable w" "content r \<noteq> []"
    using that by (simp add: raise_APIError_bytes transmit_writable transmit_frame)
  show ?thesis using a b c e by (simp add: status_msg_def)
qed

theorem error_status_raises_with_raw_body_witness:
  "remote (fresh_world [not_found] True) (sent (fresh_world [not_found] True))
       (request_of GET (with_format Map.empty) None) = Inr not_found
   \<and> 400 \<le> status_code not_found \<and> status_code not_found < 600
   \<and> snd (api_request (fresh_world [not_found] True) GET (with_format Map.empty) None)
       = Inl (APIError ''response.status_code=404'')
   \<and> files (fst (api_request (fresh_world [not_found] True) GET (with_format Map.empty) None))
       txt_sink = Some (StrOf (Bytes ''Not Found''))"
proof -
  let ?w = "fresh_world [not_found] True"
  have h1: "remote ?w (sent ?w) (request_of GET (with_format Map.empty) None) = Inr not_found"
    by (simp add: fresh_world_def scripted_def)
  have h2: "400 \<le> status_code not_found" and h3: "status_code not_found < 600"
    by (simp_all add: not_found_def)
  have o: "txt_sink_writable ?w" by (rule fresh_world_writable)
  have c: "content not_found \<noteq> []" by (simp add: not_found_def)
  have s: "''response.status_code='' @ str_int (status_code not_found) = ''response.status_code=404''"
    by (simp add: not_found_def str_int_def str_nat.simps digit_char_def)
  have n: "content not_found = ''Not Found''" by (simp add: not_found_def)
  note t = error_status_raises_with_raw_body [OF h1 h2 h3]
  from t have "snd (api_request ?w GET (with_format Map.empty) None) =
      (if content not_found = [] \<or> txt_sink_writable ?w
       then Inl (APIError (''response.status_code='' @ str_int (status_code not_found)))
       else Inl (OSError (if can_open ?w json_sink \<and> can_close ?w json_sink
                          then txt_sink else json_sink)))"
    by blast
  with o have r1: "snd (api_request ?w GET (with_format Map.empty) None)
      = Inl (APIError (''response.status_code='' @ str_int (status_code not_found)))"
    by simp
  from t o c have r2: "files (fst (api_request ?w GET (with_format Map.empty) None)) txt_sink
      = Some (StrOf (Bytes (content not_found)))"
    by blast
  from r1 s have r1': "snd (api_request ?w GET (with_format Map.empty) None)
      = Inl (APIError ''response.status_code=404'')"
    by simp
  from r2 n have r2': "files (fst (api_request ?w GET (with_format Map.empty) None)) txt_sink
      = Some (StrOf (Bytes ''Not Found''))"
    by simp
  from h1 h2 h3 r1' r2' show ?thesis by blast
qed

subsection \<open>C7\<close>

text \<open>
  Claim C7, as stated, fails: on the response \<^verbatim>\<open>{"query": {"tokens": {}}}\<close> for
  type \<^verbatim>\<open>csrf\<close> and a JSON sink that cannot be opened, \<^verbatim>\<open>get_token\<close> raises the
  \<^verbatim>\<open>OSError\<close> of \<^verbatim>\<open>open\<close>, not an \<^verbatim>\<open>APIError\<close>.
\<close>

theorem missing_token_with_unopenable_sink_raises_OSError:
  "remote (fresh_world [no_tokens] False) (sent (fresh_world [no_tokens] False))
       (token_request ''csrf'') = Inr no_tokens
   \<and> ok no_tokens \<and> decoded no_tokens = Some no_tokens_json
   \<and> token_field no_tokens_json ''csrf'' = Inl (KeyError ''csrftoken'')
   \<and> snd (api_get_token (fresh_world [no_tokens] False) ''csrf'')
        = Inl (OSError ''logs/APIError.json'')
   \<and> snd (Bot_get_token (fresh_world [no_tokens] False) ''csrf'')
        = Inl (OSError ''logs/APIError.json'')"
proof -
  let ?w = "fresh_world [no_tokens] False"
  have h1: "remote ?w (sent ?w) (token_request ''csrf'') = Inr no_tokens"
    by (simp add: fresh_world_def scripted_def)
  have h2: "ok no_tokens" by (simp add: ok_def no_tokens_def)
  have h3: "decoded no_tokens = Some no_tokens_json" by (simp add: no_tokens_def)
  have h4: "py_contains no_tokens_json ''error'' = Inr False" by (simp add: no_tokens_json_def)
  have f: "token_field no_tokens_json ''csrf'' = Inl (KeyError ''csrftoken'')"
    by (simp add: token_field_def no_tokens_json_def)
  have t: "truthy (Val no_tokens_json)" by (simp add: no_tokens_json_def)
  have n: "\<not> json_sink_writable (transmit ?w (token_request ''csrf''))"
    by (simp add: transmit_writable fresh_world_writable)
  have r: "snd (raise_APIError (transmit ?w (token_request ''csrf'')) no_token_msg
      (Val no_tokens_json)) = Inl (OSError ''logs/APIError.json'')"
    using n by (simp add: raise_APIError_val_snd [OF t] json_sink_def)
  have a: "snd (api_get_token ?w ''csrf'') = Inl (OSError ''logs/APIError.json'')"
    using api_get_token_answered [OF h1 h2 h3 h4] f r by simp
  have b: "snd (Bot_get_token ?w ''csrf'') = Inl (OSError ''logs/APIError.json'')"
    using Bot_get_token_answered [OF h1 h2 h3 h4] f r by simp
  from h1 h2 h3 f a b show ?thesis by blast
qed

text \<open>
  Claim C7, amended. When the token query is answered without error by an object whose
  \<^verbatim>\<open>query.tokens\<close> mapping lacks the field \<^verbatim>\<open><tokentype>token\<close>,
  \<^verbatim>\<open>get_token\<close> evaluates \<^verbatim>\<open>raise APIError("No token obtained.", query)\<close> with the
  whole query response as event. The \<^verbatim>\<open>APIError\<close> reaches the caller, with the
  response dumped to the JSON sink, when the JSON sink can be opened, written and
  closed; otherwise the \<^verbatim>\<open>OSError\<close> of that sink is raised. Both modules.
\<close>

theorem missing_token_raises_with_query:
  assumes "remote w (sent w) (token_request tt) = Inr r" and "ok r"
    and "decoded r = Some (JObject kvs)" and "''error'' \<notin> set (map fst kvs)"
    and "map_of kvs ''query'' = Some (JObject q)"
    and "map_of q ''tokens'' = Some (JObject t)"
    and "map_of t (tt @ ''token'') = None"
  shows "api_get_token w tt =
           raise_APIError (transmit w (token_request tt)) ''No token obtained.''
             (Val (JObject kvs))
       \<and> Bot_get_token w tt =
           raise_APIError (transmit w (token_request tt)) ''No token obtained.''
             (Val (JObject kvs))
       \<and> snd (api_get_token w tt) =
           (if json_sink_writable w then Inl (APIError ''No token obtained.'')
            else Inl (OSError json_sink))
       \<and> Bot_get_token w tt = api_get_token w tt
       \<and> (json_sink_writable w \<longrightarrow>
            api_get_token w tt =
              ((transmit w (token_request tt))
                 \<lparr>files := (files w)(json_sink \<mapsto> JsonDump (Val (JObject kvs)))\<rparr>,
               Inl (APIError ''No token obtained.'')))"
proof -
  let ?w1 = "transmit w (token_request tt)"
  have c: "py_contains (JObject kvs) ''error'' = Inr False"
    using assms(4) by simp
  have f: "token_field (JObject kvs) tt = Inl (KeyError (tt @ ''token''))"
    using assms(5-7) by (simp add: token_field_nested)
  have a: "api_get_token w tt = raise_APIError ?w1 no_token_msg (Val (JObject kvs))"
    using api_get_token_answered [OF assms(1-3) c] f by simp
  have b: "Bot_get_token w tt = raise_APIError ?w1 no_token_msg (Val (JObject kvs))"
    using Bot_get_token_answered [OF assms(1-3) c] f by simp
  have ne: "kvs \<noteq> []" using assms(5) by auto
  then have t: "truthy (Val (JObject kvs))" by simp
  have s: "snd (raise_APIError ?w1 no_token_msg (Val (JObject kvs))) =
      (if json_sink_writable w then Inl (APIError no_token_msg) else Inl (OSError json_sink))"
    by (simp add: raise_APIError_val_snd [OF t] transmit_writable)
  have e: "raise_APIError ?w1 no_token_msg (Val (JObject kvs)) =
      (?w1\<lparr>files := (files w)(json_sink \<mapsto> JsonDump (Val (JObject kvs)))\<rparr>,
       Inl (APIError no_token_msg))"
    if "json_sink_writable w"
    using raise_APIError_val [OF t, of ?w1 no_token_msg] that
    by (simp add: transmit_frame transmit_writable)
  show ?thesis using a b s e by (simp add: no_token_msg_def)
qed

theorem missing_token_raises_with_query_witness:
  "remote (fresh_world [no_tokens] True) (sent (fresh_world [no_tokens] True))
       (token_request ''csrf'') = Inr no_tokens
   \<and> ok no_tokens
   \<and> decoded no_tokens = Some (JObject [(''query'', JObject [(''tokens'', JObject [])])])
   \<and> api_get_token (fresh_world [no_tokens] True) ''csrf'' =
       ((transmit (fresh_world [no_tokens] True) (token_request ''csrf''))
          \<lparr>files := (files (fresh_world [no_tokens] True))
             (json_sink \<mapsto> JsonDump (Val (JObject [(''query'', JObject [(''tokens'', JObject [])])])))\<rparr>,
        Inl (APIError ''No token obtained.''))"
proof -
  let ?w = "fresh_world [no_tokens] True"
  have h1: "remote ?w (sent ?w) (token_request ''csrf'') = Inr no_tokens"
    by (simp add: fresh_world_def scripted_def)
  have h2: "ok no_tokens" by (simp add: ok_def no_tokens_def)
  have h3: "decoded no_tokens = Some (JObject [(''query'', JObject [(''tokens'', JObject [])])])"
    by (simp add: no_tokens_def no_tokens_json_def)
  have h4: "''error'' \<notin> set (map fst [(''query'', JObject [(''tokens'', JObject [])])])"
    by simp
  have h5: "map_of [(''query'', JObject [(''tokens'', JObject [])])] ''query''
      = Some (JObject [(''tokens'', JObject [])])" by simp
  have h6: "map_of [(''tokens'', JObject [])] ''tokens'' = Some (JObject [])" by simp
  have h7: "map_of [] (''csrf'' @ ''token'') = (None :: json option)" by simp
  have o: "json_sink_writable ?w" by (rule fresh_world_writable)
  from missing_token_raises_with_query [OF h1 h2 h3 h4 h5 h6 h7] o h1 h2 h3
  show ?thesis by blast
qed

subsection \<open>C8\<close>



subsection \<open>C9\<close>

text \<open>
  Claim C9, as stated, fails: \<^verbatim>\<open>repr\<close> of an \<^verbatim>\<open>Authorization\<close> contains each of the
  four credential fields in full.
\<close>

theorem repr_shows_all_credentials:
  "Authorization_repr demo_auth = ''Authorization(CK, CS, AK, AS)''
   \<and> sublist (client_key demo_auth) (Authorization_repr demo_auth)
   \<and> sublist (client_secret demo_auth) (Authorization_repr demo_auth)
   \<and> sublist (access_key demo_auth) (Authorization_repr demo_auth)
   \<and> sublist (access_secret demo_auth) (Authorization_repr demo_auth)"
  by (simp add: Authorization_repr_def demo_auth_def sublist_code(3))

text \<open>
  Claim C9, amended. The \<^verbatim>\<open>str\<close> conversion depends on the access key alone (two values
  with the same access key have the same \<^verbatim>\<open>str\<close>) and contains it; the \<^verbatim>\<open>repr\<close>
  conversion contains all four credential fields.
\<close>

theorem str_shows_access_key_only:
  assumes "access_key a = access_key b"
  shows "Authorization_str a = Authorization_str b
       \<and> sublist (access_key a) (Authorization_str a)
       \<and> sublist (client_key a) (Authorization_repr a)
       \<and> sublist (client_secret a) (Authorization_repr a)
       \<and> sublist (access_key a) (Authorization_repr a)
       \<and> sublist (access_secret a) (Authorization_repr a)"
proof -
  have s: "Authorization_str a = Authorization_str b"
    using assms by (simp add: Authorization_str_def)
  have k: "sublist (access_key a) (Authorization_str a)"
    unfolding Authorization_str_def by (rule sublist_appendI)
  have r1: "sublist (client_key a) (Authorization_repr a)"
    unfolding Authorization_repr_def by (rule sublist_appendI)
  have r2: "sublist (client_secret a) (Authorization_repr a)"
    using sublist_appendI [of "client_secret a" "''Authorization('' @ client_key a @ '', ''"
        "'', '' @ access_key a @ '', '' @ access_secret a @ '')''"]
    by (simp add: Authorization_repr_def)
  have r3: "sublist (access_key a) (Authorization_repr a)"
    using sublist_appendI [of "access_key a"
        "''Authorization('' @ client_key a @ '', '' @ client_secret a @ '', ''"
        "'', '' @ access_secret a @ '')''"]
    by (simp add: Authorization_repr_def)
  have r4: "sublist (access_secret a) (Authorization_repr a)"
    using sublist_appendI [of "access_secret a"
        "''Authorization('' @ client_key a @ '', '' @ client_secret a @ '', ''
           @ access_key a @ '', ''" "'')''"]
    by (simp add: Authorization_repr_def)
  from s k r1 r2 r3 r4 show ?thesis by blast
qed

theorem str_shows_access_key_only_witness:
  "access_key demo_auth = access_key other_auth
   \<and> client_secret demo_auth \<noteq> client_secret other_auth
   \<and> Authorization_str demo_auth = Authorization_str other_auth
   \<and> sublist (client_secret demo_auth) (Authorization_repr demo_auth)"
proof -
  have h: "access_key demo_auth = access_key other_auth"
    by (simp add: demo_auth_def other_auth_def)
  have d: "client_secret demo_auth \<noteq> client_secret other_auth"
    by (simp add: demo_auth_def other_auth_def)
  from str_shows_access_key_only [OF h] h d show ?thesis by blast
qed

subsection \<open>C10\<close>

text \<open>
  Claim C10. An \<^verbatim>\<open>APIError\<close> constructed with a falsy event (\<^verbatim>\<open>None\<close>, an empty
  dictionary, empty bytes) writes no file: the world, and so both sinks, are unchanged,
  and the exception carries the message only.
\<close>

theorem falsy_event_writes_nothing:
  assumes "\<not> truthy ev"
  shows "APIError_init w msg ev = (w, APIError msg)"
  using assms by (simp add: APIError_init_def)

theorem falsy_event_writes_nothing_witness:
  "\<not> truthy (Bytes []) \<and>
   APIError_init (fresh_world [empty_not_found] True) ''response.status_code=404'' (Bytes [])
     = (fresh_world [empty_not_found] True, APIError ''response.status_code=404'')"
  using falsy_event_writes_nothing
    [of "Bytes []" "fresh_world [empty_not_found] True" "''response.status_code=404''"]
  by simp

end
